theory Spec2Isabelle
  imports Complex_Main "HOL-Library.Multiset"
begin

section \<open>Python values\<close>

text \<open>
  A Python \<^verbatim>\<open>float\<close> is modelled by a real number: arithmetic and comparisons are the
  exact ones, so the binary rounding of each operation is left out. \<^verbatim>\<open>Optional[float]\<close>
  is \<open>pyfloat option\<close>, with \<open>None\<close> for Python's \<^verbatim>\<open>None\<close>.
\<close>

type_synonym pyfloat = real

text \<open>
  \<^verbatim>\<open>bool(x)\<close> of an \<^verbatim>\<open>Optional[float]\<close>, as \<^verbatim>\<open>all([...])\<close> and \<^verbatim>\<open>not x\<close> test it:
  \<^verbatim>\<open>None\<close> and \<^verbatim>\<open>0.0\<close> are false, every other number is true.
\<close>

definition truthy :: "pyfloat option \<Rightarrow> bool" where
  "truthy v = (case v of None \<Rightarrow> False | Some x \<Rightarrow> x \<noteq> 0)"

text \<open>
  \<^verbatim>\<open>round(x, 2)\<close>: the nearest multiple of \<open>1/100\<close>, a tie going to the even
  hundredth. Python rounds the binary float, which is rarely a tie where the decimal
  numeral is one (\<^verbatim>\<open>round(2.675, 2)\<close> is \<^verbatim>\<open>2.67\<close>); the validators below are the
  functions in exact arithmetic, and agree with the code where no operation rounds.
\<close>

definition round_half_even :: "real \<Rightarrow> int" where
  "round_half_even y =
     (let f = \<lfloor>y\<rfloor>; d = y - of_int f
      in if d < 1 / 2 then f else if 1 / 2 < d then f + 1 else if even f then f else f + 1)"

definition py_round2 :: "pyfloat \<Rightarrow> pyfloat" where
  "py_round2 x = of_int (round_half_even (x * 100)) / 100"

section \<open>Data model (app/core/models.py)\<close>

record invoice_item =
  product_name :: "string option"
  quantity :: "pyfloat option"
  unit_price :: "pyfloat option"
  total_price :: "pyfloat option"
  description :: "string option"

record invoice_general =
  invoice_number :: "string option"
  date :: "string option"
  supplier_name :: "string option"
  total_amount :: "pyfloat option"
  currency :: "string option"

record invoice_extraction =
  general_fields :: invoice_general
  items :: "invoice_item list"

section \<open>Validation engine (app/core/validators.py)\<close>

text \<open>
  The validators are modelled in exact arithmetic. The tests on \<^verbatim>\<open>None\<close> and on zero
  come before any arithmetic and are those of the code; a sum, a product or a difference
  of floats can differ from the exact one in the last place, and with it a comparison
  at its boundary (the code accepts \<^verbatim>\<open>1 * 0.06\<close> against \<^verbatim>\<open>0.05\<close>, where the exact
  difference is \<open>0.01\<close>).

  The dictionaries the validators return are records; a key that a branch does not set is
  \<open>None\<close>. The keys \<^verbatim>\<open>valid\<close>, \<^verbatim>\<open>skipped\<close> and \<^verbatim>\<open>reason\<close> of the tax dictionary carry the
  prefix \<open>tax_\<close>, as does its key \<^verbatim>\<open>error\<close>.
\<close>

record item_verdict =
  item_index :: nat
  product :: "string option"
  expected :: "pyfloat option"
  actual :: "pyfloat option"
  valid :: bool
  skipped :: "bool option"
  reason :: "string option"

record tax_verdict =
  items_subtotal :: "pyfloat option"
  expected_with_tax :: "pyfloat option"
  actual_total :: "pyfloat option"
  tax_rate :: "pyfloat option"
  vat_applied :: "bool option"
  tax_valid :: bool
  tax_skipped :: "bool option"
  tax_reason :: "string option"
  tax_error :: "string option"

record validation_report =
  item_calculations :: "item_verdict list"
  tax_validation :: tax_verdict
  all_valid :: bool

definition validate_item_calculation :: "invoice_item \<Rightarrow> nat \<Rightarrow> item_verdict" where
  "validate_item_calculation item index =
     (if \<not> (truthy (quantity item) \<and> truthy (unit_price item) \<and> truthy (total_price item)) then
        \<lparr>item_index = index, product = product_name item, expected = None, actual = None,
         valid = True, skipped = Some True,
         reason = Some ''Missing required fields for calculation''\<rparr>
      else
        let expected' = py_round2 (the (quantity item) * the (unit_price item));
            actual' = py_round2 (the (total_price item));
            is_valid = \<bar>expected' - actual'\<bar> < 0.01
        in \<lparr>item_index = index, product = product_name item, expected = Some expected',
            actual = Some actual', valid = is_valid, skipped = None, reason = None\<rparr>)"

definition default_tax_rate :: pyfloat where
  "default_tax_rate = 0.18"

definition validate_tax :: "invoice_extraction \<Rightarrow> pyfloat \<Rightarrow> tax_verdict" where
  "validate_tax data rate =
     (let items_total = sum_list (List.map_filter total_price (items data))
      in if items_total \<le> 0 \<or> \<not> truthy (total_amount (general_fields data)) then
           \<lparr>items_subtotal = None, expected_with_tax = None, actual_total = None,
            tax_rate = None, vat_applied = None, tax_valid = True, tax_skipped = Some True,
            tax_reason = Some ''Insufficient data for tax validation'', tax_error = None\<rparr>
         else
           let actual_total' = the (total_amount (general_fields data));
               expected_with_tax' = py_round2 (items_total * (1 + rate));
               tax_diff = \<bar>expected_with_tax' - actual_total'\<bar>;
               no_tax_diff = \<bar>items_total - actual_total'\<bar>
           in if tax_diff < 1 then
                \<lparr>items_subtotal = Some items_total, expected_with_tax = Some expected_with_tax',
                 actual_total = Some actual_total', tax_rate = Some rate,
                 vat_applied = Some True, tax_valid = True, tax_skipped = None,
                 tax_reason = None, tax_error = None\<rparr>
              else if no_tax_diff < 1 then
                \<lparr>items_subtotal = Some items_total, expected_with_tax = None,
                 actual_total = Some actual_total', tax_rate = None,
                 vat_applied = Some False, tax_valid = True, tax_skipped = None,
                 tax_reason = None, tax_error = None\<rparr>
              else
                \<lparr>items_subtotal = Some items_total, expected_with_tax = Some expected_with_tax',
                 actual_total = Some actual_total', tax_rate = Some rate,
                 vat_applied = None, tax_valid = False, tax_skipped = None, tax_reason = None,
                 tax_error = Some ''Total does not match items subtotal with or without tax''\<rparr>)"

definition validate_invoice :: "invoice_extraction \<Rightarrow> validation_report" where
  "validate_invoice data =
     (let item_validations =
            map (\<lambda>(i, item). validate_item_calculation item i) (enumerate 0 (items data));
          tax_validation' = validate_tax data default_tax_rate;
          all_valid' = (list_all valid item_validations \<and> tax_valid tax_validation')
      in \<lparr>item_calculations = item_validations, tax_validation = tax_validation',
          all_valid = all_valid'\<rparr>)"

section \<open>Errors and text\<close>

text \<open>
  An exception is a value of type \<open>error\<close>; a call that may raise returns
  \<open>error + 'a\<close>, with \<open>Inl\<close> for the exception. \<open>ExternalError\<close> stands for whatever an
  OCR engine or a language-model backend raises.
\<close>

datatype error = RuntimeError string | IndexError | ValueError | ExternalError string

text \<open>
  A Python \<^verbatim>\<open>str\<close> holding document text is a list of Unicode code points, so that
  \<open>length\<close> is \<^verbatim>\<open>len\<close>. Identifiers (source names, issue codes, parameter names) are
  \<open>string\<close>s. The character classes of \<^verbatim>\<open>str.isdigit\<close>, \<^verbatim>\<open>str.isalnum\<close> and
  \<^verbatim>\<open>str.isspace\<close> come from the Unicode database, which is a parameter.
\<close>

type_synonym uchar = nat
type_synonym pystr = "uchar list"

record unicode_db =
  isdigit :: "uchar \<Rightarrow> bool"
  isalnum :: "uchar \<Rightarrow> bool"
  isspace :: "uchar \<Rightarrow> bool"

text \<open>\<^verbatim>\<open>s.strip()\<close> removes the leading and the trailing whitespace.\<close>

definition strip :: "unicode_db \<Rightarrow> pystr \<Rightarrow> pystr" where
  "strip db s = rev (dropWhile (isspace db) (rev (dropWhile (isspace db) s)))"

section \<open>Extraction agent (app/services/agents/extraction_agent.py)\<close>

text \<open>
  An \<^verbatim>\<open>ExtractionAgent\<close> is its source name and its backend: \<open>backend a t\<close> is the outcome
  of \<^verbatim>\<open>self._agent.run_sync\<close> on the prompt built from the text \<open>t\<close>.
\<close>

record extraction_agent =
  source_name :: string
  backend :: "pystr \<Rightarrow> error + invoice_extraction"

definition empty_extraction :: invoice_extraction where
  "empty_extraction =
     \<lparr>general_fields = \<lparr>invoice_number = None, date = None, supplier_name = None,
                         total_amount = None, currency = None\<rparr>,
      items = []\<rparr>"

text \<open>\<^verbatim>\<open>ExtractionAgent.extract\<close>, here \<open>agent_extract\<close>.\<close>

definition agent_extract :: "unicode_db \<Rightarrow> extraction_agent \<Rightarrow> pystr \<Rightarrow> error + invoice_extraction" where
  "agent_extract db agent ocr_text =
     (if strip db ocr_text = [] then Inr empty_extraction else backend agent ocr_text)"

text \<open>
  The environment of one run of the decision agent: the settings, the construction of a
  pydantic-ai \<^verbatim>\<open>Agent\<close> for a model string (it may raise), the instant at which the
  future of each source completes, and the comparison agent (the judge).
\<close>

record judge_prompt =
  source_a :: string
  result_a :: invoice_extraction
  source_b :: string
  result_b :: invoice_extraction
  ocr_prefix :: pystr

datatype reasoning = Reason string | ScoreReason pyfloat "(string \<times> pyfloat) option"

record agent_decision =
  selected_source :: string
  decision_confidence :: pyfloat
  reasoning :: reasoning
  result :: invoice_extraction

record decide_env =
  llm_provider :: string
  parallel_llm_enabled :: bool
  openai_model :: string
  ollama_model :: string
  create_agent :: "string \<Rightarrow> error + (pystr \<Rightarrow> error + invoice_extraction)"
  finish_time :: "string \<Rightarrow> nat"
  comparison_agent :: "judge_prompt \<Rightarrow> error + agent_decision"

definition get_default_model :: "decide_env \<Rightarrow> string \<Rightarrow> string" where
  "get_default_model env provider =
     (if provider = ''ollama'' then ollama_model env else openai_model env)"

definition get_model_string :: "string \<Rightarrow> string \<Rightarrow> string" where
  "get_model_string provider model =
     (if provider = ''ollama'' then ''ollama:'' @ model else ''openai:'' @ model)"

text \<open>\<^verbatim>\<open>ExtractionAgent(provider=..., model=...)\<close>: the constructor.\<close>

definition new_extraction_agent :: "decide_env \<Rightarrow> string \<Rightarrow> string \<Rightarrow> error + extraction_agent" where
  "new_extraction_agent env provider model =
     (let provider' = (if provider \<noteq> [] then provider else llm_provider env);
          model' = (if model \<noteq> [] then model else get_default_model env provider')
      in case create_agent env (get_model_string provider' model') of
           Inl e \<Rightarrow> Inl e
         | Inr run_sync \<Rightarrow> Inr \<lparr>source_name = provider' @ '':'' @ model', backend = run_sync\<rparr>)"

definition create_parallel_extractors :: "decide_env \<Rightarrow> error + extraction_agent list" where
  "create_parallel_extractors env =
     (case new_extraction_agent env ''openai'' (openai_model env) of
        Inl e \<Rightarrow> Inl e
      | Inr openai \<Rightarrow>
          if parallel_llm_enabled env then
            (case new_extraction_agent env ''ollama'' (ollama_model env) of
               Inl e \<Rightarrow> Inr [openai]
             | Inr ollama \<Rightarrow> Inr [openai, ollama])
          else Inr [openai])"

section \<open>Decision agent (app/services/agents/decision_agent.py)\<close>

text \<open>
  \<^verbatim>\<open>as_completed\<close> yields the futures in the order in which they complete: the agents
  sorted by the instant at which each one's future completes.
\<close>

definition run_parallel_extractions ::
  "decide_env \<Rightarrow> unicode_db \<Rightarrow> pystr \<Rightarrow> extraction_agent list \<Rightarrow> error + (string \<times> invoice_extraction) list" where
  "run_parallel_extractions env db ocr_text extractors =
     (if extractors = [] then Inl ValueError
      else Inr (List.map_filter
                  (\<lambda>extractor. case agent_extract db extractor ocr_text of
                                  Inl e \<Rightarrow> None
                                | Inr extraction \<Rightarrow> Some (source_name extractor, extraction))
                  (sort_key (\<lambda>extractor. finish_time env (source_name extractor)) extractors)))"

definition count_true :: "bool list \<Rightarrow> nat" where
  "count_true bs = length (filter (\<lambda>b. b) bs)"

definition calculate_score :: "invoice_extraction \<Rightarrow> pyfloat" where
  "calculate_score extraction =
     (let general = general_fields extraction;
          completeness =
            real (count_true [invoice_number general \<noteq> None, date general \<noteq> None,
                              supplier_name general \<noteq> None, total_amount general \<noteq> None,
                              currency general \<noteq> None]) / 5;
          score1 = 0 + completeness * 0.3;
          score2 =
            (if items extraction \<noteq> [] then
               let item_completeness =
                     real (sum_list (map (\<lambda>i. count_true [product_name i \<noteq> None, quantity i \<noteq> None,
                                                           unit_price i \<noteq> None, total_price i \<noteq> None])
                                      (items extraction)))
                     / real (length (items extraction) * 4)
               in score1 + 0.2 + item_completeness * 0.1
             else score1);
          validations = validate_invoice extraction;
          score3 =
            (if all_valid validations then score2 + 0.4
             else
               let item_calcs = item_calculations validations;
                   score4 =
                     (if item_calcs \<noteq> [] then
                        let valid_items = length (filter valid item_calcs)
                        in score2 + (real valid_items / real (length item_calcs)) * 0.2
                      else score2)
               in if tax_valid (tax_validation validations) then score4 + 0.2 else score4)
      in min score3 1.0)"

text \<open>
  The decision agent compares scores, and there the rounding of binary floating point
  decides: for the scores \<^verbatim>\<open>0.7\<close> and \<^verbatim>\<open>0.55\<close> Python computes the gap
  \<^verbatim>\<open>0.1499999999999999\<close>, which is below its \<^verbatim>\<open>0.15\<close>. So the agent is modelled over a
  record of what the floating point arithmetic of a run computes: the float that
  \<^verbatim>\<open>_calculate_score\<close> returns for a candidate, the difference of two floats, and the float
  that the literal \<^verbatim>\<open>0.15\<close> denotes. Nothing is assumed of the three, so a property proved
  of the agent for every such record holds of the code; comparison, negation and the
  absolute value of floats are exact. In exact arithmetic the three are \<open>calculate_score\<close>,
  the difference and \<open>0.15\<close>.
\<close>

record floats =
  calculate_score_fl :: "invoice_extraction \<Rightarrow> pyfloat"
  fl_sub :: "pyfloat \<Rightarrow> pyfloat \<Rightarrow> pyfloat"
  fl_0_15 :: pyfloat

definition exact_floats :: floats where
  "exact_floats = \<lparr>calculate_score_fl = calculate_score, fl_sub = (\<lambda>x y. x - y), fl_0_15 = 0.15\<rparr>"

text \<open>
  \<^verbatim>\<open>list.sort(key=lambda x: x[2], reverse=True)\<close> is stable: candidates of equal score
  keep their order.
\<close>

definition score_all ::
  "floats \<Rightarrow> (string \<times> invoice_extraction) list \<Rightarrow> (string \<times> invoice_extraction \<times> pyfloat) list" where
  "score_all fl results =
     map (\<lambda>(source, extraction). (source, extraction, calculate_score_fl fl extraction)) results"

definition sort_by_score_desc ::
  "(string \<times> invoice_extraction \<times> pyfloat) list \<Rightarrow> (string \<times> invoice_extraction \<times> pyfloat) list" where
  "sort_by_score_desc xs = sort_key (\<lambda>x. - snd (snd x)) xs"

definition select_best_heuristic ::
  "floats \<Rightarrow> (string \<times> invoice_extraction) list \<Rightarrow> error + agent_decision" where
  "select_best_heuristic fl results =
     (case sort_by_score_desc (score_all fl results) of
        [] \<Rightarrow> Inl IndexError
      | (best_source, best_extraction, best_score) # rest \<Rightarrow>
          Inr \<lparr>selected_source = best_source,
               decision_confidence = best_score,
               reasoning = ScoreReason best_score
                 (case rest of [] \<Rightarrow> None
                  | (second_source, _, second_score) # _ \<Rightarrow> Some (second_source, second_score)),
               result = best_extraction\<rparr>)"

text \<open>
  The second component of the result lists the prompts sent to the comparison agent, in
  order: it is empty exactly when the judge was not called.
\<close>

definition select_best_llm ::
  "floats \<Rightarrow> (judge_prompt \<Rightarrow> error + agent_decision) \<Rightarrow> (string \<times> invoice_extraction) list
     \<Rightarrow> pystr \<Rightarrow> (error + agent_decision) \<times> judge_prompt list" where
  "select_best_llm fl judge results ocr_text =
     (case results of
        [] \<Rightarrow> (Inl IndexError, [])
      | (source_a', result_a') # rest \<Rightarrow>
          (case rest of
             [] \<Rightarrow>
               (Inr \<lparr>selected_source = source_a', decision_confidence = 0.8,
                     reasoning = Reason ''Only one result available'', result = result_a'\<rparr>, [])
           | (source_b', result_b') # _ \<Rightarrow>
               let prompt = \<lparr>source_a = source_a', result_a = result_a', source_b = source_b',
                             result_b = result_b', ocr_prefix = take 1500 ocr_text\<rparr>
               in (case judge prompt of
                     Inr output \<Rightarrow> (Inr output, [prompt])
                   | Inl e \<Rightarrow> (select_best_heuristic fl results, [prompt]))))"

text \<open>
  \<open>decide_results\<close> is the part of \<^verbatim>\<open>decide\<close> that follows the parallel extractions
  (from \<^verbatim>\<open>if not results\<close> on).
\<close>

definition decide_results ::
  "floats \<Rightarrow> (judge_prompt \<Rightarrow> error + agent_decision) \<Rightarrow> (string \<times> invoice_extraction) list
     \<Rightarrow> pystr \<Rightarrow> (error + agent_decision) \<times> judge_prompt list" where
  "decide_results fl judge results ocr_text =
     (if results = [] then (Inl (RuntimeError ''All extraction attempts failed''), [])
      else if length results = 1 then
        (let (source, extraction) = results ! 0
         in (Inr \<lparr>selected_source = source,
                   decision_confidence = calculate_score_fl fl extraction,
                   reasoning = Reason ''Only one extraction succeeded'', result = extraction\<rparr>, []))
      else
        let scores = sort_by_score_desc (score_all fl results);
            best_score = snd (snd (scores ! 0));
            second_score = snd (snd (scores ! 1))
        in if \<bar>fl_sub fl best_score second_score\<bar> < fl_0_15 fl
           then select_best_llm fl judge results ocr_text
           else (select_best_heuristic fl results, []))"

definition decide ::
  "floats \<Rightarrow> decide_env \<Rightarrow> unicode_db \<Rightarrow> pystr \<Rightarrow> (error + agent_decision) \<times> judge_prompt list" where
  "decide fl env db ocr_text =
     (case create_parallel_extractors env of
        Inl e \<Rightarrow> (Inl e, [])
      | Inr extractors \<Rightarrow>
          if length extractors = 1 then
            (case agent_extract db (extractors ! 0) ocr_text of
               Inl e \<Rightarrow> (Inl e, [])
             | Inr extraction \<Rightarrow>
                 (Inr \<lparr>selected_source = source_name (extractors ! 0),
                       decision_confidence = calculate_score_fl fl extraction,
                       reasoning = Reason ''Single extractor mode'', result = extraction\<rparr>, []))
          else
            (case run_parallel_extractions env db ocr_text extractors of
               Inl e \<Rightarrow> (Inl e, [])
             | Inr results \<Rightarrow> decide_results fl (comparison_agent env) results ocr_text))"

section \<open>OCR provider chain (app/services/ocr/providers.py)\<close>

text \<open>
  \<^verbatim>\<open>OCRResult\<close>; its field \<^verbatim>\<open>text\<close> is \<open>text_of\<close>. Pydantic admits a confidence in
  \<open>[0, 1]\<close> only.
\<close>

record ocr_result =
  text_of :: pystr
  confidence :: pyfloat
  language :: string
  retry_count :: int
  provider :: string

text \<open>
  An \<^verbatim>\<open>OCRProvider\<close>: its name and its method \<^verbatim>\<open>extract(image_path, lang)\<close>, which
  returns a result or raises.
\<close>

record ocr_provider =
  name :: string
  provider_extract :: "string \<Rightarrow> string \<Rightarrow> error + ocr_result"

record ocr_provider_chain =
  providers :: "ocr_provider list"
  min_confidence :: pyfloat

text \<open>
  \<^verbatim>\<open>OCRProviderChain.__init__\<close>: the two engines are the parameters \<open>paddle\<close> and \<open>easy\<close>.
\<close>

definition new_chain ::
  "(string \<Rightarrow> string \<Rightarrow> error + ocr_result) \<Rightarrow> (string \<Rightarrow> string \<Rightarrow> error + ocr_result)
     \<Rightarrow> pyfloat \<Rightarrow> ocr_provider_chain" where
  "new_chain paddle easy min_conf =
     \<lparr>providers = [\<lparr>name = ''paddleocr'', provider_extract = paddle\<rparr>,
                   \<lparr>name = ''easyocr'', provider_extract = easy\<rparr>],
      min_confidence = min_conf\<rparr>"

text \<open>
  \<^verbatim>\<open>max(results, key=lambda r: r.confidence)\<close>: the first result of the greatest
  confidence; \<^verbatim>\<open>max\<close> of an empty list raises.
\<close>

fun max_confidence :: "ocr_result list \<Rightarrow> error + ocr_result" where
  "max_confidence [] = Inl ValueError"
| "max_confidence (r # rs) =
     Inr (foldl (\<lambda>best x. if confidence best < confidence x then x else best) r rs)"

text \<open>
  The loop of \<^verbatim>\<open>OCRProviderChain.extract\<close> over the providers still to try, with the
  results retained so far. The second component of the outcome lists the names of the
  providers whose \<^verbatim>\<open>extract\<close> was called, in order.
\<close>

fun try_providers ::
  "pyfloat \<Rightarrow> string \<Rightarrow> string \<Rightarrow> ocr_provider list \<Rightarrow> ocr_result list
     \<Rightarrow> (error + ocr_result) \<times> string list" where
  "try_providers min_conf image_path lang [] results =
     (if results \<noteq> [] then max_confidence results
      else Inl (RuntimeError ''All OCR providers failed''), [])"
| "try_providers min_conf image_path lang (p # ps) results =
     (case provider_extract p image_path lang of
        Inr r \<Rightarrow>
          if min_conf \<le> confidence r then (Inr r, [name p])
          else (let (outcome, called) = try_providers min_conf image_path lang ps (results @ [r])
                in (outcome, name p # called))
      | Inl e \<Rightarrow>
          (let (outcome, called) = try_providers min_conf image_path lang ps results
           in (outcome, name p # called)))"

definition chain_extract ::
  "ocr_provider_chain \<Rightarrow> string \<Rightarrow> string \<Rightarrow> (error + ocr_result) \<times> string list" where
  "chain_extract chain image_path lang =
     try_providers (min_confidence chain) image_path lang (providers chain) []"

section \<open>OCR agent (app/services/agents/ocr_agent.py)\<close>

datatype quality = Good | Poor

text \<open>
  \<^verbatim>\<open>OCRQualityAssessment\<close>; its field \<^verbatim>\<open>confidence\<close> is \<open>qa_confidence\<close>. A dictionary of
  engine parameters is an association list in insertion order.
\<close>

type_synonym params = "(string \<times> pyfloat) list"

record ocr_quality_assessment =
  quality :: quality
  qa_confidence :: pyfloat
  issues :: "string list"
  should_retry :: bool
  suggested_params :: "params option"

definition OCR_RETRY_PARAMS :: "(string \<times> params) list" where
  "OCR_RETRY_PARAMS =
     [(''empty_text'', [(''det_db_thresh'', 0.2), (''det_db_box_thresh'', 0.3)]),
      (''text_too_short'', [(''det_db_thresh'', 0.2)]),
      (''no_numbers'', [(''det_db_thresh'', 0.25)]),
      (''excessive_special_chars'', [(''det_db_thresh'', 0.35), (''det_db_unclip_ratio'', 2.0)]),
      (''low_confidence'', [(''det_db_thresh'', 0.3)])]"

text \<open>\<^verbatim>\<open>d[k] = v\<close> and \<^verbatim>\<open>d.update(other)\<close>.\<close>

fun dict_set :: "params \<Rightarrow> string \<Rightarrow> pyfloat \<Rightarrow> params" where
  "dict_set [] k v = [(k, v)]"
| "dict_set ((k', v') # d) k v = (if k' = k then (k, v) # d else (k', v') # dict_set d k v)"

definition dict_update :: "params \<Rightarrow> params \<Rightarrow> params" where
  "dict_update d other = foldl (\<lambda>d' (k, v). dict_set d' k v) d other"

definition get_retry_params :: "string list \<Rightarrow> params" where
  "get_retry_params issue_list =
     (let params = foldl (\<lambda>params issue. case map_of OCR_RETRY_PARAMS issue of
                                            Some adjust \<Rightarrow> dict_update params adjust
                                          | None \<Rightarrow> params) [] issue_list
      in if params \<noteq> [] then params else [(''det_db_thresh'', 0.3)])"

text \<open>
  \<open>agent\<close> is the model backend: \<open>agent t\<close> is the outcome of \<^verbatim>\<open>self._agent.run_sync\<close> on
  the prompt built from the prefix \<open>t\<close> of the text. The second component of the result of
  \<open>assess_quality\<close> lists the prefixes sent to the backend: it is empty exactly when the
  backend was not called.
\<close>

definition assess_quality ::
  "unicode_db \<Rightarrow> (pystr \<Rightarrow> error + ocr_quality_assessment) \<Rightarrow> ocr_result
     \<Rightarrow> ocr_quality_assessment \<times> pystr list" where
  "assess_quality db agent ocr_result =
     (if strip db (text_of ocr_result) = [] then
        (\<lparr>quality = Poor, qa_confidence = 0.0, issues = [''empty_text''], should_retry = True,
          suggested_params = Some [(''det_db_thresh'', 0.2)]\<rparr>, [])
      else
        let text = text_of ocr_result;
            quick_issues1 = (if length text < 50 then [''text_too_short''] else []);
            quick_issues2 = (if \<not> list_ex (isdigit db) text then quick_issues1 @ [''no_numbers'']
                             else quick_issues1);
            special_ratio =
              real (length (filter (\<lambda>c. \<not> isalnum db c \<and> \<not> isspace db c) text))
              / real (length text);
            quick_issues = (if 0.3 < special_ratio then quick_issues2 @ [''excessive_special_chars'']
                            else quick_issues2)
        in if 2 \<le> length quick_issues then
             (\<lparr>quality = Poor, qa_confidence = 0.3, issues = quick_issues, should_retry = True,
               suggested_params = Some (get_retry_params quick_issues)\<rparr>, [])
           else
             (case agent (take 2000 text) of
                Inr assessment \<Rightarrow>
                  (if should_retry assessment \<and>
                      (suggested_params assessment = None \<or> suggested_params assessment = Some [])
                   then assessment\<lparr>suggested_params := Some (get_retry_params (issues assessment))\<rparr>
                   else assessment, [take 2000 text])
              | Inl e \<Rightarrow>
                  (\<lparr>quality = (if 0.7 < confidence ocr_result then Good else Poor),
                    qa_confidence = confidence ocr_result,
                    issues = [''assessment_failed''],
                    should_retry = (confidence ocr_result < 0.5),
                    suggested_params = None\<rparr>, [take 2000 text])))"

section \<open>Vocabulary of the properties\<close>

text \<open>
  The score as the specification words it: the fraction of the five header fields that are
  not null, the fraction of the four slots per item that are not null, and the weighted
  sum capped at \<open>1\<close>.
\<close>

definition header_fraction :: "invoice_extraction \<Rightarrow> real" where
  "header_fraction c =
     (let g = general_fields c
      in (of_bool (invoice_number g \<noteq> None) + of_bool (date g \<noteq> None) +
          of_bool (supplier_name g \<noteq> None) + of_bool (total_amount g \<noteq> None) +
          of_bool (currency g \<noteq> None)) / 5)"

definition item_slot_fraction :: "invoice_extraction \<Rightarrow> real" where
  "item_slot_fraction c =
     (\<Sum>i\<leftarrow>items c. of_bool (product_name i \<noteq> None) + of_bool (quantity i \<noteq> None) +
                      of_bool (unit_price i \<noteq> None) + of_bool (total_price i \<noteq> None))
     / (4 * real (length (items c)))"

definition score_spec :: "invoice_extraction \<Rightarrow> real" where
  "score_spec c =
     (let report = validate_invoice c
      in min 1
           (0.3 * header_fraction c
            + (if items c \<noteq> [] then 0.2 + 0.1 * item_slot_fraction c else 0)
            + (if all_valid report then 0.4
               else 0.2 * (real (length (filter valid (item_calculations report)))
                           / real (length (item_calculations report)))
                    + (if tax_valid (tax_validation report) then 0.2 else 0))))"

text \<open>
  A provider that does not end the chain: its call raises, or its result has a confidence
  below the threshold. \<open>successes\<close> are the results of the providers that return one.
\<close>

definition low_or_failed :: "pyfloat \<Rightarrow> string \<Rightarrow> string \<Rightarrow> ocr_provider \<Rightarrow> bool" where
  "low_or_failed min_conf image_path lang p =
     (case provider_extract p image_path lang of Inl e \<Rightarrow> True | Inr r \<Rightarrow> confidence r < min_conf)"

definition successes :: "string \<Rightarrow> string \<Rightarrow> ocr_provider list \<Rightarrow> ocr_result list" where
  "successes image_path lang ps =
     List.map_filter
       (\<lambda>p. case provider_extract p image_path lang of Inl e \<Rightarrow> None | Inr r \<Rightarrow> Some r) ps"

text \<open>Sample data: an OCR result of a given confidence.\<close>

definition scan :: "pyfloat \<Rightarrow> string \<Rightarrow> ocr_result" where
  "scan c prov = \<lparr>text_of = [73, 78, 86, 32, 52, 50], confidence = c, language = ''en'',
                  retry_count = 0, provider = prov\<rparr>"

text \<open>
  The issues of the heuristic pre-filter, as the specification lists them: fewer than 50
  characters, no digit, and a ratio of characters that are neither alphanumeric nor
  whitespace above \<open>0.3\<close>.
\<close>

definition heuristic_issues :: "unicode_db \<Rightarrow> pystr \<Rightarrow> string list" where
  "heuristic_issues db t =
     (if length t < 50 then [''text_too_short''] else []) @
     (if list_all (\<lambda>c. \<not> isdigit db c) t then [''no_numbers''] else []) @
     (if 0.3 < real (length (filter (\<lambda>c. \<not> isalnum db c \<and> \<not> isspace db c) t)) / real (length t)
      then [''excessive_special_chars''] else [])"

text \<open>
  Sample data: the character classes of the code points below 128.
\<close>

definition ascii_db :: unicode_db where
  "ascii_db =
     \<lparr>isdigit = (\<lambda>c. 48 \<le> c \<and> c \<le> 57),
      isalnum = (\<lambda>c. (48 \<le> c \<and> c \<le> 57) \<or> (65 \<le> c \<and> c \<le> 90) \<or> (97 \<le> c \<and> c \<le> 122)),
      isspace = (\<lambda>c. (9 \<le> c \<and> c \<le> 13) \<or> (28 \<le> c \<and> c \<le> 32))\<rparr>"

text \<open>
  The candidates that the backends produce in one run of \<open>decide\<close>: the results of the
  extractors whose call succeeds.
\<close>

definition produced_candidates :: "decide_env \<Rightarrow> unicode_db \<Rightarrow> pystr \<Rightarrow> invoice_extraction list" where
  "produced_candidates env db ocr_text =
     (case create_parallel_extractors env of
        Inl e \<Rightarrow> []
      | Inr extractors \<Rightarrow>
          List.map_filter
            (\<lambda>extractor. case agent_extract db extractor ocr_text of Inl e \<Rightarrow> None | Inr c \<Rightarrow> Some c)
            extractors)"

text \<open>
  The gap between the two highest scores of a list of two or more results, as \<open>decide\<close>
  computes it: \<^verbatim>\<open>abs(best_score - second_score)\<close>.
\<close>

definition top_gap :: "floats \<Rightarrow> (string \<times> invoice_extraction) list \<Rightarrow> pyfloat" where
  "top_gap fl results =
     (let scores = sort_by_score_desc (score_all fl results)
      in \<bar>fl_sub fl (snd (snd (scores ! 0))) (snd (snd (scores ! 1)))\<bar>)"

text \<open>
  The prompt that \<open>select_best_llm\<close> builds from a list of two or more results: it holds
  the first two results of the list and a prefix of the text.
\<close>

definition judge_prompt_of :: "(string \<times> invoice_extraction) list \<Rightarrow> pystr \<Rightarrow> judge_prompt" where
  "judge_prompt_of results ocr_text =
     \<lparr>source_a = fst (results ! 0), result_a = snd (results ! 0),
      source_b = fst (results ! 1), result_b = snd (results ! 1),
      ocr_prefix = take 1500 ocr_text\<rparr>"

text \<open>
  Sample data: a complete invoice whose figures agree (score \<open>1\<close>), the same invoice
  without its currency (score \<open>0.94\<close>), an environment with both extractors in which the
  Ollama future completes first, three judges (one that fails, one that picks a candidate
  of its prompt, and one that returns a result of its own making), and a list of three
  results in an order of completion that is not the order of the scores \<open>0.4\<close>, \<open>0.94\<close>
  and \<open>1\<close>. The gaps between these scores are far from \<open>0.15\<close>, in floats as in exact
  arithmetic.
\<close>

definition sample_item :: invoice_item where
  "sample_item = \<lparr>product_name = Some ''pen'', quantity = Some 2, unit_price = Some 50,
                   total_price = Some 100, description = None\<rparr>"

definition full_candidate :: invoice_extraction where
  "full_candidate =
     \<lparr>general_fields = \<lparr>invoice_number = Some ''F-1'', date = Some ''2024-01-31'',
                         supplier_name = Some ''ACME'', total_amount = Some 118,
                         currency = Some ''TRY''\<rparr>,
      items = [sample_item]\<rparr>"

definition partial_candidate :: invoice_extraction where
  "partial_candidate =
     \<lparr>general_fields = \<lparr>invoice_number = Some ''F-1'', date = Some ''2024-01-31'',
                         supplier_name = Some ''ACME'', total_amount = Some 118,
                         currency = None\<rparr>,
      items = [sample_item]\<rparr>"

definition hybrid_candidate :: invoice_extraction where
  "hybrid_candidate = \<lparr>general_fields = general_fields full_candidate, items = []\<rparr>"

definition sample_env ::
  "invoice_extraction \<Rightarrow> invoice_extraction \<Rightarrow> (judge_prompt \<Rightarrow> error + agent_decision) \<Rightarrow> decide_env" where
  "sample_env a b judge =
     \<lparr>llm_provider = ''openai'', parallel_llm_enabled = True, openai_model = ''gpt-4o-mini'', ollama_model = ''llama3.2'',
      create_agent = (\<lambda>model_string. Inr (\<lambda>t. Inr (if model_string = ''openai:gpt-4o-mini'' then a else b))),
      finish_time = (\<lambda>source. if source = ''ollama:llama3.2'' then 1 else 2),
      comparison_agent = judge\<rparr>"

definition failing_judge :: "judge_prompt \<Rightarrow> error + agent_decision" where
  "failing_judge prompt = Inl (ExternalError ''judge unavailable'')"


definition merging_judge :: "judge_prompt \<Rightarrow> error + agent_decision" where
  "merging_judge prompt =
     Inr \<lparr>selected_source = source_b prompt, decision_confidence = 0.9,
          reasoning = Reason ''merged'', result = hybrid_candidate\<rparr>"


section \<open>Properties of the validation engine\<close>

text \<open>
  C10. A zero is treated as a missing value: an item whose quantity, unit price or total
  price is \<open>0\<close> gets the verdict valid and skipped, and a candidate whose header total
  amount is \<open>0\<close> gets the tax verdict valid and skipped.
\<close>

theorem zero_treated_as_missing:
  "(quantity item = Some 0 \<or> unit_price item = Some 0 \<or> total_price item = Some 0 \<longrightarrow>
      valid (validate_item_calculation item i) \<and>
      skipped (validate_item_calculation item i) = Some True) \<and>
   (total_amount (general_fields data) = Some 0 \<longrightarrow>
      tax_valid (validate_tax data rate) \<and> tax_skipped (validate_tax data rate) = Some True)"
  by (auto simp: validate_item_calculation_def validate_tax_def truthy_def Let_def)

theorem zero_treated_as_missing_witness:
  "(let item = \<lparr>product_name = Some ''pen'', quantity = Some 2, unit_price = Some 10,
                 total_price = Some 0, description = None\<rparr>;
        data = \<lparr>general_fields = \<lparr>invoice_number = None, date = None, supplier_name = None,
                                   total_amount = Some 0, currency = None\<rparr>,
                items = [\<lparr>product_name = None, quantity = None, unit_price = None,
                          total_price = Some 100, description = None\<rparr>]\<rparr>
    in total_price item = Some 0 \<and>
       valid (validate_item_calculation item 3) \<and>
       skipped (validate_item_calculation item 3) = Some True \<and>
       total_amount (general_fields data) = Some 0 \<and>
       tax_valid (validate_tax data 0.18) \<and> tax_skipped (validate_tax data 0.18) = Some True)"
  using zero_treated_as_missing
    [of "\<lparr>product_name = Some ''pen'', quantity = Some 2, unit_price = Some 10,
          total_price = Some 0, description = None\<rparr>"
        3
        "\<lparr>general_fields = \<lparr>invoice_number = None, date = None, supplier_name = None,
                             total_amount = Some 0, currency = None\<rparr>,
          items = [\<lparr>product_name = None, quantity = None, unit_price = None,
                    total_price = Some 100, description = None\<rparr>]\<rparr>"
        "0.18"]
  by (simp add: Let_def)

text \<open>
  A missing value is skipped: these two facts involve no arithmetic.
\<close>

lemma validate_item_calculation_missing:
  assumes "quantity item = None \<or> unit_price item = None \<or> total_price item = None"
  shows "validate_item_calculation item i =
           \<lparr>item_index = i, product = product_name item, expected = None, actual = None,
            valid = True, skipped = Some True,
            reason = Some ''Missing required fields for calculation''\<rparr>"
  using assms by (auto simp: validate_item_calculation_def truthy_def)

lemma validate_tax_missing_total:
  assumes "total_amount (general_fields data) = None"
  shows "tax_valid (validate_tax data rate) \<and> tax_skipped (validate_tax data rate) = Some True"
  using assms by (simp add: validate_tax_def truthy_def Let_def)

text \<open>
  C1. An item whose three numbers are all present is checked: the verdict is valid exactly
  when the rounded product and the rounded total differ by less than \<open>0.01\<close>. The
  function skips the item below, whose total price is present and \<open>0\<close>: it returns valid
  and skipped, where \<open>round(2 * 10, 2) = 20\<close> and \<open>round(0, 2) = 0\<close> differ by \<open>20\<close>.
\<close>

theorem validate_item_calculation_zero_total:
  "validate_item_calculation
     \<lparr>product_name = Some ''pen'', quantity = Some 2, unit_price = Some 10,
      total_price = Some 0, description = None\<rparr> 0
   = \<lparr>item_index = 0, product = Some ''pen'', expected = None, actual = None, valid = True,
      skipped = Some True, reason = Some ''Missing required fields for calculation''\<rparr> \<and>
   \<not> \<bar>py_round2 (2 * 10) - py_round2 0\<bar> < 0.01"
  by (simp add: validate_item_calculation_def truthy_def py_round2_def round_half_even_def)

text \<open>
  C2. With a positive subtotal and a header total that is present, the tax verdict compares
  the total with the subtotal, with and without tax. The function skips the candidate
  below, whose header total is present and \<open>0\<close>: it returns valid and skipped, where the
  subtotal \<open>100\<close> and \<open>round(100 * 1.18, 2) = 118\<close> both differ from \<open>0\<close> by \<open>1\<close> or more.
\<close>

theorem validate_tax_zero_total_amount:
  "validate_tax
     \<lparr>general_fields = \<lparr>invoice_number = None, date = None, supplier_name = None,
                         total_amount = Some 0, currency = None\<rparr>,
      items = [\<lparr>product_name = None, quantity = None, unit_price = None,
                total_price = Some 100, description = None\<rparr>]\<rparr> default_tax_rate
   = \<lparr>items_subtotal = None, expected_with_tax = None, actual_total = None, tax_rate = None,
      vat_applied = None, tax_valid = True, tax_skipped = Some True,
      tax_reason = Some ''Insufficient data for tax validation'', tax_error = None\<rparr> \<and>
   \<not> \<bar>py_round2 (100 * (1 + default_tax_rate)) - 0\<bar> < 1 \<and> \<not> \<bar>(100::real) - 0\<bar> < 1"
  by (simp add: validate_tax_def truthy_def default_tax_rate_def
      py_round2_def round_half_even_def)

section \<open>Properties of the score\<close>

lemma count_true_Cons: "count_true (b # bs) = (if b then 1 else 0) + count_true bs"
  by (simp add: count_true_def)

lemma count_true_Nil: "count_true [] = 0"
  by (simp add: count_true_def)

lemma header_count: "real (count_true [a, b, c, d, e]) = of_bool a + of_bool b + of_bool c + of_bool d + of_bool e"
  by (simp add: count_true_Cons count_true_Nil)

lemma slot_count: "real (sum_list (map (\<lambda>i. count_true [p i, q i, u i, t i]) xs))
   = (\<Sum>i\<leftarrow>xs. of_bool (p i) + of_bool (q i) + of_bool (u i) + of_bool (t i))"
  by (induction xs) (simp_all add: count_true_Cons count_true_Nil)

lemma item_calculations_length: "length (item_calculations (validate_invoice c)) = length (items c)"
  by (simp add: validate_invoice_def Let_def)

lemma empty_items_all_valid: "items c = [] \<Longrightarrow> all_valid (validate_invoice c)"
  by (simp add: validate_invoice_def validate_tax_def Let_def)

lemma item_calculations_nonempty: "\<not> all_valid (validate_invoice c) \<Longrightarrow> item_calculations (validate_invoice c) \<noteq> []"
  using empty_items_all_valid [of c] item_calculations_length [of c] by (cases "items c") auto

lemma completeness_eq:
  "real (count_true [invoice_number (general_fields c) \<noteq> None, date (general_fields c) \<noteq> None,
                     supplier_name (general_fields c) \<noteq> None, total_amount (general_fields c) \<noteq> None,
                     currency (general_fields c) \<noteq> None]) / 5 = header_fraction c"
  unfolding header_fraction_def Let_def header_count ..

lemma item_completeness_eq:
  "real (sum_list (map (\<lambda>i. count_true [product_name i \<noteq> None, quantity i \<noteq> None,
                                          unit_price i \<noteq> None, total_price i \<noteq> None]) (items c)))
     / real (length (items c) * 4) = item_slot_fraction c"
  unfolding item_slot_fraction_def slot_count by (simp add: mult.commute)

lemma calculate_score_eq: "calculate_score c = score_spec c"
proof -
  have ne: "\<not> all_valid (validate_invoice c) \<Longrightarrow> item_calculations (validate_invoice c) \<noteq> []"
    by (rule item_calculations_nonempty)
  show ?thesis
    unfolding calculate_score_def score_spec_def Let_def completeness_eq item_completeness_eq
    using ne by (simp add: min.commute algebra_simps)
qed

lemma header_fraction_nonneg: "0 \<le> header_fraction c"
  by (simp add: header_fraction_def Let_def)

lemma item_slot_fraction_nonneg: "0 \<le> item_slot_fraction c"
  unfolding item_slot_fraction_def
  by (intro divide_nonneg_nonneg sum_list_nonneg) auto

lemma score_spec_range: "0 \<le> score_spec c \<and> score_spec c \<le> 1"
  using header_fraction_nonneg [of c] item_slot_fraction_nonneg [of c]
  by (simp add: score_spec_def Let_def)

text \<open>
  C3. The score is \<open>0.3\<close> times the fraction of the five header fields that are not null,
  plus, when there are items, \<open>0.2\<close> and \<open>0.1\<close> times the fraction of the four slots per
  item that are not null, plus \<open>0.4\<close> when the validation report is valid overall, and
  otherwise \<open>0.2\<close> times the fraction of valid items plus \<open>0.2\<close> when the tax verdict is
  valid; the sum is capped at \<open>1\<close>, and the score lies between \<open>0\<close> and \<open>1\<close>.
\<close>

theorem calculate_score_weighted_sum:
  "calculate_score c = score_spec c \<and> 0 \<le> calculate_score c \<and> calculate_score c \<le> 1"
  using calculate_score_eq [of c] score_spec_range [of c] by simp

section \<open>Properties of the OCR provider chain\<close>

lemma successes_Nil: "successes image_path lang [] = []"
  by (simp add: successes_def)

lemma successes_Cons:
  "successes image_path lang (p # ps) =
     (case provider_extract p image_path lang of Inl e \<Rightarrow> [] | Inr r \<Rightarrow> [r]) @ successes image_path lang ps"
  by (simp add: successes_def split: sum.splits)

lemma foldl_max_confidence:
  "foldl (\<lambda>best x. if confidence best < confidence x then x else best) r rs \<in> set (r # rs) \<and>
   (\<forall>x \<in> set (r # rs). confidence x \<le> confidence (foldl (\<lambda>best x. if confidence best < confidence x then x else best) r rs))"
proof (induction rs arbitrary: r)
  case Nil
  show ?case by simp
next
  case (Cons y ys)
  show ?case
  proof (cases "confidence r < confidence y")
    case True
    with Cons [of y] show ?thesis by auto
  next
    case False
    with Cons [of r] show ?thesis by auto
  qed
qed

lemma max_confidence_greatest:
  assumes "rs \<noteq> []"
  shows "\<exists>m. max_confidence rs = Inr m \<and> m \<in> set rs \<and> (\<forall>x \<in> set rs. confidence x \<le> confidence m)"
proof (cases rs)
  case Nil
  with assms show ?thesis by simp
next
  case (Cons r rs')
  with foldl_max_confidence [of r rs'] show ?thesis by simp
qed

lemma try_providers_short_circuit:
  assumes "\<forall>q \<in> set ps. low_or_failed min_conf image_path lang q"
    and "provider_extract p image_path lang = Inr r" and "min_conf \<le> confidence r"
  shows "try_providers min_conf image_path lang (ps @ p # qs) acc = (Inr r, map name ps @ [name p])"
  using assms
  by (induction ps arbitrary: acc) (auto simp: low_or_failed_def split: sum.splits)

lemma try_providers_exhausted:
  assumes "\<forall>q \<in> set ps. low_or_failed min_conf image_path lang q"
  shows "try_providers min_conf image_path lang ps acc =
           (if acc @ successes image_path lang ps \<noteq> [] then max_confidence (acc @ successes image_path lang ps)
            else Inl (RuntimeError ''All OCR providers failed''), map name ps)"
  using assms
proof (induction ps arbitrary: acc)
  case Nil
  show ?case by (simp add: successes_Nil)
next
  case (Cons p ps)
  then show ?case
    by (cases "provider_extract p image_path lang") (auto simp: low_or_failed_def successes_Cons)
qed

lemma try_providers_error_iff:
  "(\<exists>e. fst (try_providers min_conf image_path lang ps acc) = Inl e) \<longleftrightarrow>
     acc = [] \<and> (\<forall>q \<in> set ps. \<exists>e. provider_extract q image_path lang = Inl e)"
proof (induction ps arbitrary: acc)
  case Nil
  show ?case using max_confidence_greatest [of acc] by auto
next
  case (Cons p ps)
  show ?case
  proof (cases "provider_extract p image_path lang")
    case (Inl e)
    with Cons [of acc] show ?thesis by (simp add: split_beta)
  next
    case (Inr r)
    with Cons [of "acc @ [r]"] show ?thesis by (simp add: split_beta)
  qed
qed

lemma try_providers_error_is_aggregate:
  "fst (try_providers min_conf image_path lang ps acc) = Inl e \<Longrightarrow> e = RuntimeError ''All OCR providers failed''"
proof (induction ps arbitrary: acc)
  case Nil
  then show ?case using max_confidence_greatest [of acc] by (auto split: if_splits)
next
  case (Cons p ps)
  then show ?case
    by (cases "provider_extract p image_path lang") (auto simp: split_beta split: if_splits)
qed


text \<open>
  C6. The chain tries its providers in order. A result whose confidence reaches the
  threshold is returned at once and no later provider is called. A result below the
  threshold is retained and a failure is absorbed: when no provider reaches the threshold,
  all of them are called, and the chain returns a retained result of the greatest
  confidence if there is one. The chain fails exactly when every provider failed, and then
  with the error "All OCR providers failed".
\<close>

theorem chain_extract_policy:
  "(providers chain = ps @ p # qs \<and>
    list_all (low_or_failed (min_confidence chain) image_path lang) ps \<and>
    provider_extract p image_path lang = Inr r \<and> min_confidence chain \<le> confidence r \<longrightarrow>
      chain_extract chain image_path lang = (Inr r, map name ps @ [name p])) \<and>
   (list_all (low_or_failed (min_confidence chain) image_path lang) (providers chain) \<longrightarrow>
      snd (chain_extract chain image_path lang) = map name (providers chain) \<and>
      (successes image_path lang (providers chain) \<noteq> [] \<longrightarrow>
         (\<exists>m. fst (chain_extract chain image_path lang) = Inr m \<and>
              m \<in> set (successes image_path lang (providers chain)) \<and>
              list_all (\<lambda>x. confidence x \<le> confidence m) (successes image_path lang (providers chain))))) \<and>
   ((\<exists>e. fst (chain_extract chain image_path lang) = Inl e) \<longleftrightarrow>
      list_all (\<lambda>q. isl (provider_extract q image_path lang)) (providers chain)) \<and>
   (fst (chain_extract chain image_path lang) = Inl e \<longrightarrow>
      e = RuntimeError ''All OCR providers failed'')"
proof (intro conjI impI)
  assume "providers chain = ps @ p # qs \<and>
    list_all (low_or_failed (min_confidence chain) image_path lang) ps \<and>
    provider_extract p image_path lang = Inr r \<and> min_confidence chain \<le> confidence r"
  then show "chain_extract chain image_path lang = (Inr r, map name ps @ [name p])"
    by (simp add: chain_extract_def try_providers_short_circuit list_all_iff)
next
  assume low: "list_all (low_or_failed (min_confidence chain) image_path lang) (providers chain)"
  then have eq: "chain_extract chain image_path lang =
      (if successes image_path lang (providers chain) \<noteq> []
       then max_confidence (successes image_path lang (providers chain))
       else Inl (RuntimeError ''All OCR providers failed''), map name (providers chain))"
    unfolding chain_extract_def
    using try_providers_exhausted [of "providers chain" "min_confidence chain" image_path lang "[]"]
    by (simp add: list_all_iff)
  from eq show "snd (chain_extract chain image_path lang) = map name (providers chain)"
    by simp
  assume "successes image_path lang (providers chain) \<noteq> []"
  with eq max_confidence_greatest [of "successes image_path lang (providers chain)"]
  show "\<exists>m. fst (chain_extract chain image_path lang) = Inr m \<and>
              m \<in> set (successes image_path lang (providers chain)) \<and>
              list_all (\<lambda>x. confidence x \<le> confidence m) (successes image_path lang (providers chain))"
    by (auto simp: list_all_iff)
next
  show "(\<exists>e. fst (chain_extract chain image_path lang) = Inl e) \<longleftrightarrow>
      list_all (\<lambda>q. isl (provider_extract q image_path lang)) (providers chain)"
    unfolding chain_extract_def try_providers_error_iff
    by (auto simp: list_all_iff isl_def)
next
  assume "fst (chain_extract chain image_path lang) = Inl e"
  then show "e = RuntimeError ''All OCR providers failed''"
    unfolding chain_extract_def by (rule try_providers_error_is_aggregate)
qed

theorem chain_extract_policy_witness:
  "chain_extract (new_chain (\<lambda>image_path lang. Inr (scan 0.9 ''paddleocr''))
                            (\<lambda>image_path lang. Inr (scan 0.95 ''easyocr'')) 0.5) ''a.png'' ''en''
     = (Inr (scan 0.9 ''paddleocr''), [''paddleocr'']) \<and>
   chain_extract (new_chain (\<lambda>image_path lang. Inl (ExternalError ''engine''))
                            (\<lambda>image_path lang. Inr (scan 0.4 ''easyocr'')) 0.5) ''a.png'' ''en''
     = (Inr (scan 0.4 ''easyocr''), [''paddleocr'', ''easyocr'']) \<and>
   chain_extract (new_chain (\<lambda>image_path lang. Inl (ExternalError ''engine''))
                            (\<lambda>image_path lang. Inl (ExternalError ''reader''))  0.5) ''a.png'' ''en''
     = (Inl (RuntimeError ''All OCR providers failed''), [''paddleocr'', ''easyocr''])"
proof -
  let ?ok = "\<lambda>(c::pyfloat) prov (image_path::string) (lang::string). (Inr (scan c prov) :: error + ocr_result)"
  let ?ko = "\<lambda>msg (image_path::string) (lang::string). (Inl (ExternalError msg) :: error + ocr_result)"
  have a: "chain_extract (new_chain (?ok 0.9 ''paddleocr'') (?ok 0.95 ''easyocr'') 0.5) ''a.png'' ''en''
             = (Inr (scan 0.9 ''paddleocr''), [''paddleocr''])"
    using chain_extract_policy
      [THEN conjunct1,
       of "new_chain (?ok 0.9 ''paddleocr'') (?ok 0.95 ''easyocr'') 0.5"
          "[]" "\<lparr>name = ''paddleocr'', provider_extract = ?ok 0.9 ''paddleocr''\<rparr>"
          "[\<lparr>name = ''easyocr'', provider_extract = ?ok 0.95 ''easyocr''\<rparr>]"
          "''a.png''" "''en''" "scan 0.9 ''paddleocr''"]
    by (simp add: new_chain_def scan_def)
  let ?c2 = "new_chain (?ko ''engine'') (?ok 0.4 ''easyocr'') 0.5"
  have b: "snd (chain_extract ?c2 ''a.png'' ''en'') = [''paddleocr'', ''easyocr''] \<and>
           fst (chain_extract ?c2 ''a.png'' ''en'') = Inr (scan 0.4 ''easyocr'')"
    using chain_extract_policy [THEN conjunct2, THEN conjunct1, of ?c2 "''a.png''" "''en''"]
    by (simp add: new_chain_def scan_def low_or_failed_def successes_def)
  let ?c3 = "new_chain (?ko ''engine'') (?ko ''reader'') 0.5"
  have c1: "snd (chain_extract ?c3 ''a.png'' ''en'') = [''paddleocr'', ''easyocr'']"
    using chain_extract_policy [THEN conjunct2, THEN conjunct1, of ?c3 "''a.png''" "''en''"]
    by (simp add: new_chain_def low_or_failed_def)
  have "\<exists>e. fst (chain_extract ?c3 ''a.png'' ''en'') = Inl e"
    using chain_extract_policy [THEN conjunct2, THEN conjunct2, THEN conjunct1, of ?c3 "''a.png''" "''en''"]
    by (simp add: new_chain_def)
  then obtain e where e: "fst (chain_extract ?c3 ''a.png'' ''en'') = Inl e" ..
  then have "e = RuntimeError ''All OCR providers failed''"
    using chain_extract_policy [THEN conjunct2, THEN conjunct2, THEN conjunct2, of ?c3 "''a.png''" "''en''" e]
    by simp
  with e have c2: "fst (chain_extract ?c3 ''a.png'' ''en'') = Inl (RuntimeError ''All OCR providers failed'')"
    by simp
  from a b c1 c2 show ?thesis
    by (simp add: prod_eq_iff)
qed

section \<open>Properties of the quality gate\<close>

lemma quick_issues_eq:
  "(let quick_issues1 = (if length t < 50 then [''text_too_short''] else []);
        quick_issues2 = (if \<not> list_ex (isdigit db) t then quick_issues1 @ [''no_numbers'']
                         else quick_issues1);
        special_ratio = real (length (filter (\<lambda>c. \<not> isalnum db c \<and> \<not> isspace db c) t)) / real (length t);
        quick_issues = (if 0.3 < special_ratio then quick_issues2 @ [''excessive_special_chars'']
                        else quick_issues2)
    in f quick_issues) = f (heuristic_issues db t)"
  by (simp add: heuristic_issues_def Let_def list_ex_iff list_all_iff)

lemma assess_quality_nonblank:
  "strip db (text_of r) \<noteq> [] \<Longrightarrow>
   assess_quality db agent r =
     (if 2 \<le> length (heuristic_issues db (text_of r)) then
        (\<lparr>quality = Poor, qa_confidence = 0.3, issues = heuristic_issues db (text_of r),
          should_retry = True,
          suggested_params = Some (get_retry_params (heuristic_issues db (text_of r)))\<rparr>, [])
      else
        (case agent (take 2000 (text_of r)) of
           Inr assessment \<Rightarrow>
             (if should_retry assessment \<and>
                 (suggested_params assessment = None \<or> suggested_params assessment = Some [])
              then assessment\<lparr>suggested_params := Some (get_retry_params (issues assessment))\<rparr>
              else assessment, [take 2000 (text_of r)])
         | Inl e \<Rightarrow>
             (\<lparr>quality = (if 0.7 < confidence r then Good else Poor),
               qa_confidence = confidence r,
               issues = [''assessment_failed''],
               should_retry = (confidence r < 0.5),
               suggested_params = None\<rparr>, [take 2000 (text_of r)])))"
  unfolding assess_quality_def
  by (simp only: if_False Let_def [of "text_of r"] quick_issues_eq)



text \<open>
  C8. When the text passes the pre-filter (it is not blank and fewer than two issues are
  found) and the backend fails, the gate returns the fallback: quality good exactly when
  the OCR confidence exceeds \<open>0.7\<close>, the OCR confidence as confidence, the one issue
  \<open>assessment_failed\<close>, and a retry exactly when the OCR confidence is below \<open>0.5\<close>.
\<close>

theorem assess_quality_backend_failure:
  "strip db (text_of r) \<noteq> [] \<and> length (heuristic_issues db (text_of r)) < 2 \<and>
   agent (take 2000 (text_of r)) = Inl e \<longrightarrow>
     assess_quality db agent r =
       (\<lparr>quality = (if 0.7 < confidence r then Good else Poor),
         qa_confidence = confidence r,
         issues = [''assessment_failed''],
         should_retry = (confidence r < 0.5),
         suggested_params = None\<rparr>, [take 2000 (text_of r)])"
  by (simp add: assess_quality_nonblank)

theorem assess_quality_backend_failure_witness:
  "assess_quality ascii_db (\<lambda>t. Inl (ExternalError ''timeout''))
     \<lparr>text_of = [73, 78, 86, 32, 52, 50], confidence = 0.8, language = ''en'', retry_count = 0,
      provider = ''paddleocr''\<rparr>
     = (\<lparr>quality = Good, qa_confidence = 0.8, issues = [''assessment_failed''],
         should_retry = False, suggested_params = None\<rparr>, [[73, 78, 86, 32, 52, 50]]) \<and>
   assess_quality ascii_db (\<lambda>t. Inl (ExternalError ''timeout''))
     \<lparr>text_of = [73, 78, 86, 32, 52, 50], confidence = 0.4, language = ''en'', retry_count = 0,
      provider = ''paddleocr''\<rparr>
     = (\<lparr>quality = Poor, qa_confidence = 0.4, issues = [''assessment_failed''],
         should_retry = True, suggested_params = None\<rparr>, [[73, 78, 86, 32, 52, 50]])"
proof -
  have nonblank: "strip ascii_db [73, 78, 86, 32, 52, 50] \<noteq> []"
    by (simp add: strip_def ascii_db_def)
  have found: "heuristic_issues ascii_db [73, 78, 86, 32, 52, 50] = [''text_too_short'']"
    by (simp add: heuristic_issues_def ascii_db_def)
  show ?thesis
    using
      assess_quality_backend_failure
        [of ascii_db "\<lparr>text_of = [73, 78, 86, 32, 52, 50], confidence = 0.8, language = ''en'',
                        retry_count = 0, provider = ''paddleocr''\<rparr>"
            "\<lambda>t. Inl (ExternalError ''timeout'')" "ExternalError ''timeout''"]
      assess_quality_backend_failure
        [of ascii_db "\<lparr>text_of = [73, 78, 86, 32, 52, 50], confidence = 0.4, language = ''en'',
                        retry_count = 0, provider = ''paddleocr''\<rparr>"
            "\<lambda>t. Inl (ExternalError ''timeout'')" "ExternalError ''timeout''"]
    by (simp add: nonblank found)
qed

section \<open>Properties of the decision agent\<close>


lemma sort_by_score_desc_set: "set (sort_by_score_desc xs) = set xs"
  by (simp add: sort_by_score_desc_def)

lemma sort_by_score_desc_length: "length (sort_by_score_desc xs) = length xs"
  by (simp add: sort_by_score_desc_def)

lemma sort_by_score_desc_sorted:
  "sorted_wrt (\<lambda>x y. snd (snd y) \<le> snd (snd x)) (sort_by_score_desc xs)"
proof -
  have "sorted (map (\<lambda>x. - snd (snd x)) (sort_by_score_desc xs))"
    unfolding sort_by_score_desc_def by (rule sorted_sort_key)
  then show ?thesis
    by (simp add: sorted_wrt_map)
qed

lemma sort_by_score_desc_head:
  assumes "sort_by_score_desc xs = y # ys"
  shows "y \<in> set xs \<and> (\<forall>x \<in> set xs. snd (snd x) \<le> snd (snd y))"
proof -
  have "set xs = set (y # ys)"
    using sort_by_score_desc_set [of xs] assms by simp
  moreover have "\<forall>z \<in> set ys. snd (snd z) \<le> snd (snd y)"
    using sort_by_score_desc_sorted [of xs] assms by simp
  ultimately show ?thesis by auto
qed

lemma score_all_set:
  "x \<in> set (score_all fl results) \<longleftrightarrow> (fst x, fst (snd x)) \<in> set results \<and> snd (snd x) = calculate_score_fl fl (fst (snd x))"
  by (cases x) (auto simp: score_all_def)

lemma score_all_length: "length (score_all fl results) = length results"
  by (simp add: score_all_def)

lemma select_best_heuristic_top:
  assumes "results \<noteq> []"
  shows "\<exists>d. select_best_heuristic fl results = Inr d \<and>
             (selected_source d, result d) \<in> set results \<and>
             decision_confidence d = calculate_score_fl fl (result d) \<and>
             decision_confidence d = snd (snd (sort_by_score_desc (score_all fl results) ! 0)) \<and>
             list_all (\<lambda>(source, extraction). calculate_score_fl fl extraction \<le> calculate_score_fl fl (result d)) results"
proof -
  from assms have "sort_by_score_desc (score_all fl results) \<noteq> []"
    using sort_by_score_desc_length [of "score_all fl results"] score_all_length [of fl results] by auto
  then obtain bs be bsc rest where s: "sort_by_score_desc (score_all fl results) = (bs, be, bsc) # rest"
    by (cases "sort_by_score_desc (score_all fl results)") auto
  from sort_by_score_desc_head [OF s]
  have mem: "(bs, be, bsc) \<in> set (score_all fl results)"
    and top: "\<forall>x \<in> set (score_all fl results). snd (snd x) \<le> bsc"
    by auto
  from mem have in_res: "(bs, be) \<in> set results" and sc: "bsc = calculate_score_fl fl be"
    by (auto simp: score_all_set)
  have "\<forall>(source, extraction) \<in> set results. calculate_score_fl fl extraction \<le> bsc"
  proof (clarify)
    fix source extraction assume "(source, extraction) \<in> set results"
    then have "(source, extraction, calculate_score_fl fl extraction) \<in> set (score_all fl results)"
      by (simp add: score_all_set)
    with top show "calculate_score_fl fl extraction \<le> bsc" by fastforce
  qed
  with s in_res sc show ?thesis
    by (simp add: select_best_heuristic_def list_all_iff)
qed

lemma select_best_llm_two:
  assumes "2 \<le> length results"
  shows "select_best_llm fl judge results ocr_text =
           (case judge (judge_prompt_of results ocr_text) of
              Inr output \<Rightarrow> Inr output
            | Inl e \<Rightarrow> select_best_heuristic fl results, [judge_prompt_of results ocr_text])"
proof -
  from assms obtain a b rest where r: "results = a # b # rest"
    by (cases results; cases "tl results") auto
  show ?thesis
    unfolding r select_best_llm_def judge_prompt_of_def
    by (cases a; cases b) (simp add: Let_def split: sum.splits)
qed

lemma decide_results_two:
  assumes "2 \<le> length results"
  shows "decide_results fl judge results ocr_text =
           (if top_gap fl results < fl_0_15 fl then select_best_llm fl judge results ocr_text
            else (select_best_heuristic fl results, []))"
  using assms by (auto simp: decide_results_def top_gap_def Let_def)


lemma decide_parallel:
  assumes "create_parallel_extractors env = Inr extractors" and "length extractors \<noteq> 1"
    and "run_parallel_extractions env db ocr_text extractors = Inr results"
  shows "decide fl env db ocr_text = decide_results fl (comparison_agent env) results ocr_text"
  using assms by (simp add: decide_def)




lemma run_parallel_extractions_candidates:
  assumes "create_parallel_extractors env = Inr extractors"
    and "run_parallel_extractions env db ocr_text extractors = Inr results"
    and "(source, c) \<in> set results"
  shows "c \<in> set (produced_candidates env db ocr_text)"
proof -
  from assms(2,3) obtain extractor where "extractor \<in> set extractors"
    and "agent_extract db extractor ocr_text = Inr c"
    by (auto simp: run_parallel_extractions_def List.map_filter_def split: if_splits sum.splits)
  with assms(1) show ?thesis
    by (force simp: produced_candidates_def List.map_filter_def)
qed

lemma score_full: "calculate_score full_candidate = 1"
  by (simp add: calculate_score_def full_candidate_def sample_item_def validate_invoice_def
      validate_item_calculation_def validate_tax_def default_tax_rate_def truthy_def
      py_round2_def round_half_even_def count_true_def Let_def)

lemma score_partial: "calculate_score partial_candidate = 0.94"
  by (simp add: calculate_score_def partial_candidate_def sample_item_def validate_invoice_def
      validate_item_calculation_def validate_tax_def default_tax_rate_def truthy_def
      py_round2_def round_half_even_def count_true_def Let_def)

lemma score_empty: "calculate_score empty_extraction = 0.4"
  by (simp add: calculate_score_def empty_extraction_def validate_invoice_def
      validate_item_calculation_def validate_tax_def default_tax_rate_def truthy_def
      py_round2_def round_half_even_def count_true_def Let_def)

lemma sample_extractors:
  "create_parallel_extractors (sample_env a b judge) =
     Inr [\<lparr>source_name = ''openai:gpt-4o-mini'', backend = (\<lambda>t. Inr a)\<rparr>,
          \<lparr>source_name = ''ollama:llama3.2'', backend = (\<lambda>t. Inr b)\<rparr>]"
  by (simp add: create_parallel_extractors_def new_extraction_agent_def sample_env_def
      get_model_string_def get_default_model_def)

lemma sample_results:
  "run_parallel_extractions (sample_env a b judge) ascii_db [73, 78, 86, 32, 52, 50]
     [\<lparr>source_name = ''openai:gpt-4o-mini'', backend = (\<lambda>t. Inr a)\<rparr>,
      \<lparr>source_name = ''ollama:llama3.2'', backend = (\<lambda>t. Inr b)\<rparr>]
   = Inr [(''ollama:llama3.2'', b), (''openai:gpt-4o-mini'', a)]"
  by (simp add: run_parallel_extractions_def sample_env_def agent_extract_def strip_def ascii_db_def
     )

lemma sorted_full_empty:
  "sort_by_score_desc (score_all exact_floats [(''ollama:llama3.2'', empty_extraction), (''openai:gpt-4o-mini'', full_candidate)])
     = [(''openai:gpt-4o-mini'', full_candidate, 1), (''ollama:llama3.2'', empty_extraction, 0.4)]"
  by (simp add: sort_by_score_desc_def score_all_def exact_floats_def score_full score_empty)

lemma sorted_full_partial:
  "sort_by_score_desc (score_all exact_floats [(''ollama:llama3.2'', partial_candidate), (''openai:gpt-4o-mini'', full_candidate)])
     = [(''openai:gpt-4o-mini'', full_candidate, 1), (''ollama:llama3.2'', partial_candidate, 0.94)]"
  by (simp add: sort_by_score_desc_def score_all_def exact_floats_def score_full score_partial)


lemma gap_full_empty:
  "top_gap exact_floats [(''ollama:llama3.2'', empty_extraction), (''openai:gpt-4o-mini'', full_candidate)]
     = 0.6"
  by (simp add: top_gap_def sorted_full_empty Let_def) (simp add: exact_floats_def)

lemma gap_full_partial:
  "top_gap exact_floats [(''ollama:llama3.2'', partial_candidate), (''openai:gpt-4o-mini'', full_candidate)]
     = 0.06"
  by (simp add: top_gap_def sorted_full_partial Let_def) (simp add: exact_floats_def)


lemma threshold_exact: "fl_0_15 exact_floats = 0.15"
  by (simp add: exact_floats_def)

lemma decide_sample:
  "decide exact_floats (sample_env a b judge) ascii_db [73, 78, 86, 32, 52, 50]
     = decide_results exact_floats judge [(''ollama:llama3.2'', b), (''openai:gpt-4o-mini'', a)] [73, 78, 86, 32, 52, 50]"
  by (simp add: decide_def sample_extractors sample_results) (simp add: sample_env_def)

lemma decide_results_near_sample:
  "decide_results exact_floats judge [(''ollama:llama3.2'', partial_candidate), (''openai:gpt-4o-mini'', full_candidate)]
       [73, 78, 86, 32, 52, 50]
     = select_best_llm exact_floats judge [(''ollama:llama3.2'', partial_candidate), (''openai:gpt-4o-mini'', full_candidate)]
         [73, 78, 86, 32, 52, 50]"
  by (simp add: decide_results_two gap_full_partial threshold_exact)

lemma decide_results_far_sample:
  "decide_results exact_floats judge [(''ollama:llama3.2'', empty_extraction), (''openai:gpt-4o-mini'', full_candidate)]
       [73, 78, 86, 32, 52, 50]
     = (select_best_heuristic exact_floats
          [(''ollama:llama3.2'', empty_extraction), (''openai:gpt-4o-mini'', full_candidate)], [])"
  by (simp add: decide_results_two gap_full_empty threshold_exact)


lemma produced_sample:
  "produced_candidates (sample_env a b judge) ascii_db [73, 78, 86, 32, 52, 50] = [a, b]"
  by (simp add: produced_candidates_def sample_extractors agent_extract_def strip_def ascii_db_def)


lemma single_extractor_candidate:
  assumes "create_parallel_extractors env = Inr extractors" and "length extractors = 1"
    and "agent_extract db (extractors ! 0) ocr_text = Inr c"
  shows "c \<in> set (produced_candidates env db ocr_text)"
proof -
  from assms(2) obtain a where "extractors = [a]"
    by (cases extractors) auto
  with assms(1,3) show ?thesis
    by (simp add: produced_candidates_def List.map_filter_def)
qed

lemma decide_results_origin:
  assumes "fst (decide_results fl judge results ocr_text) = Inr d"
  shows "(\<exists>source. (source, result d) \<in> set results) \<or>
         (snd (decide_results fl judge results ocr_text) = [judge_prompt_of results ocr_text] \<and>
          judge (judge_prompt_of results ocr_text) = Inr d)"
proof (cases "2 \<le> length results")
  case False
  then have "results = [] \<or> (\<exists>x. results = [x])"
    by (cases results) (auto simp: not_le)
  with assms show ?thesis
    by (auto simp: decide_results_def split_beta intro: exI [of _ "fst (hd results)"])
next
  case True
  then have ne: "results \<noteq> []" by auto
  from select_best_heuristic_top [OF ne] obtain h where h:
    "select_best_heuristic fl results = Inr h" "(selected_source h, result h) \<in> set results"
    by blast
  show ?thesis
  proof (cases "fst (decide_results fl judge results ocr_text) = select_best_heuristic fl results")
    case True
    with assms h have "d = h" by simp
    with h show ?thesis by blast
  next
    case False
    then have "judge (judge_prompt_of results ocr_text) = Inr d \<and>
               snd (decide_results fl judge results ocr_text) = [judge_prompt_of results ocr_text]"
      using assms \<open>2 \<le> length results\<close>
      by (auto simp: decide_results_two select_best_llm_two Let_def split: if_splits sum.splits)
    then show ?thesis by simp
  qed
qed






text \<open>
  C9, as amended. The result of a decision is one of the candidates that the backends
  produced in the run (single extractor, single success, score-based selection, fallback
  after a failed judge call), or the decision is the output of the judge, returned as it
  is.
\<close>

theorem decision_result_origin:
  "fst (decide fl env db ocr_text) = Inr d \<longrightarrow>
     result d \<in> set (produced_candidates env db ocr_text) \<or>
     (\<exists>p. snd (decide fl env db ocr_text) = [p] \<and> comparison_agent env p = Inr d)"
proof
  assume a: "fst (decide fl env db ocr_text) = Inr d"
  then obtain extractors where ex: "create_parallel_extractors env = Inr extractors"
    by (cases "create_parallel_extractors env") (auto simp: decide_def)
  show "result d \<in> set (produced_candidates env db ocr_text) \<or>
     (\<exists>p. snd (decide fl env db ocr_text) = [p] \<and> comparison_agent env p = Inr d)"
  proof (cases "length extractors = 1")
    case True
    with a ex obtain c where "agent_extract db (extractors ! 0) ocr_text = Inr c" and "result d = c"
      by (cases "agent_extract db (extractors ! 0) ocr_text") (auto simp: decide_def)
    with single_extractor_candidate [OF ex True] show ?thesis by simp
  next
    case False
    with a ex obtain results where
      res: "run_parallel_extractions env db ocr_text extractors = Inr results"
      by (cases "run_parallel_extractions env db ocr_text extractors") (auto simp: decide_def)
    have d: "decide fl env db ocr_text = decide_results fl (comparison_agent env) results ocr_text"
      using ex False res by (rule decide_parallel)
    from decide_results_origin [of fl "comparison_agent env" results ocr_text d] a d
    consider source where "(source, result d) \<in> set results"
      | "snd (decide fl env db ocr_text) = [judge_prompt_of results ocr_text]"
        "comparison_agent env (judge_prompt_of results ocr_text) = Inr d"
      by auto
    then show ?thesis
    proof cases
      case 1
      with run_parallel_extractions_candidates [OF ex res] show ?thesis by blast
    next
      case 2
      then show ?thesis by blast
    qed
  qed
qed

theorem decision_result_origin_witness:
  "fst (decide exact_floats (sample_env full_candidate empty_extraction failing_judge) ascii_db [73, 78, 86, 32, 52, 50])
     = Inr \<lparr>selected_source = ''openai:gpt-4o-mini'', decision_confidence = 1,
            reasoning = ScoreReason 1 (Some (''ollama:llama3.2'', 0.4)),
            result = full_candidate\<rparr> \<and>
   full_candidate \<in> set (produced_candidates (sample_env full_candidate empty_extraction failing_judge)
                            ascii_db [73, 78, 86, 32, 52, 50])"
proof -
  let ?env = "sample_env full_candidate empty_extraction failing_judge"
  let ?t = "[73, 78, 86, 32, 52, 50] :: pystr"
  have run: "decide exact_floats ?env ascii_db ?t
               = (Inr \<lparr>selected_source = ''openai:gpt-4o-mini'', decision_confidence = 1,
                       reasoning = ScoreReason 1 (Some (''ollama:llama3.2'', 0.4)),
                       result = full_candidate\<rparr>, [])"
    by (simp add: decide_sample decide_results_far_sample select_best_heuristic_def sorted_full_empty)
  with decision_result_origin
         [of exact_floats ?env ascii_db ?t
             "\<lparr>selected_source = ''openai:gpt-4o-mini'', decision_confidence = 1,
               reasoning = ScoreReason 1 (Some (''ollama:llama3.2'', 0.4)),
               result = full_candidate\<rparr>"]
  show ?thesis by simp
qed

text \<open>
  C9, as stated, fails on the judge path: nothing compares the output of the judge with
  the candidates. Here the two candidates score \<open>1\<close> and \<open>0.94\<close>, the judge is called and
  returns a result that is neither of them, and that output is the decision.
\<close>

theorem judge_output_not_a_candidate:
  "fst (decide exact_floats (sample_env full_candidate partial_candidate merging_judge) ascii_db [73, 78, 86, 32, 52, 50])
     = Inr \<lparr>selected_source = ''openai:gpt-4o-mini'', decision_confidence = 0.9,
            reasoning = Reason ''merged'', result = hybrid_candidate\<rparr> \<and>
   hybrid_candidate \<notin> set (produced_candidates (sample_env full_candidate partial_candidate merging_judge)
                              ascii_db [73, 78, 86, 32, 52, 50])"
proof -
  have "fst (decide exact_floats (sample_env full_candidate partial_candidate merging_judge) ascii_db
               [73, 78, 86, 32, 52, 50])
          = Inr \<lparr>selected_source = ''openai:gpt-4o-mini'', decision_confidence = 0.9,
                 reasoning = Reason ''merged'', result = hybrid_candidate\<rparr>"
    by (simp add: decide_sample decide_results_near_sample select_best_llm_def merging_judge_def)
  moreover have "hybrid_candidate \<noteq> full_candidate" and "hybrid_candidate \<noteq> partial_candidate"
    by (simp_all add: hybrid_candidate_def full_candidate_def partial_candidate_def)
  ultimately show ?thesis
    by (simp add: produced_sample)
qed

end
